theory Spec2Isabelle
  imports Complex_Main
begin

section \<open>Data model of \<open>fishroom/web/handlers.py\<close>\<close>

text \<open>
  A Python \<open>str\<close> is a sequence of Unicode code points, a \<open>bytes\<close> value a sequence of
  bytes.  Literals of the source are written \<open>u ''...''\<close>.
\<close>

type_synonym pystr = "nat list"
type_synonym pybytes = string

definition u :: "string \<Rightarrow> pystr" where
  "u s = map of_char s"

text \<open>
  The values \<open>json.loads\<close> produces.  A JSON object is the Python \<open>dict\<close> it parses to,
  kept as an association list read with \<open>map_of\<close>.  A float is finite, an infinity or
  not a number (the parser accepts \<open>Infinity\<close>, \<open>-Infinity\<close> and \<open>NaN\<close>).
\<close>

datatype pyfloat = Finite real | PosInf | NegInf | NaN

datatype json =
    JNull
  | JBool bool
  | JInt int
  | JFloat pyfloat
  | JStr pystr
  | JArr "json list"
  | JObj "(pystr \<times> json) list"

text \<open>Python truthiness, as \<open>if not content\<close> tests it.\<close>

fun truthy :: "json \<Rightarrow> bool" where
  "truthy JNull = False"
| "truthy (JBool b) = b"
| "truthy (JInt i) = (i \<noteq> 0)"
| "truthy (JFloat x) = (x \<noteq> Finite 0)"
| "truthy (JStr s) = (s \<noteq> [])"
| "truthy (JArr xs) = (xs \<noteq> [])"
| "truthy (JObj kvs) = (kvs \<noteq> [])"

text \<open>\<open>d.get(key, default)\<close> on a dict.\<close>

definition dict_get :: "(pystr \<times> json) list \<Rightarrow> pystr \<Rightarrow> json \<Rightarrow> json" where
  "dict_get d k dflt = (case map_of d k of None \<Rightarrow> dflt | Some v \<Rightarrow> v)"

datatype pyexc =
    HTTPError nat
  | AttributeError
  | TypeError
  | KeyError
  | ValueError
  | RuntimeError

datatype http_method = GET | HEAD | POST | OTHER

record request =
  req_method :: http_method
  req_headers :: "pystr \<rightharpoonup> pystr"
  req_arguments :: "pystr \<rightharpoonup> pystr"
  req_body :: pybytes
  req_session :: "pybytes option"

text \<open>
  The configuration \<open>config\<close> (module \<open>..config\<close>): \<open>config["bindings"]\<close> maps a room id to
  its binding, of which the handlers read only \<open>web_post\<close>; \<open>private_rooms\<close> and \<open>github\<close>
  are optional keys read with \<open>config.get\<close>.
\<close>

record binding =
  web_post :: "bool option"

record config =
  bindings :: "pystr \<rightharpoonup> binding"
  private_rooms :: "pystr list option"
  github :: bool

datatype channel_tag = ChannelWeb | ChannelAPI pystr

datatype message_type = Text | Command

record message =
  msg_channel :: channel_tag
  msg_sender :: json
  msg_receiver :: pystr
  msg_content :: json
  msg_mtype :: message_type
  msg_date :: pystr
  msg_time :: pystr
  msg_room :: pystr

text \<open>
  The collaborators the handlers call and this file does not define: the JSON parser
  (\<open>None\<close> where decoding or parsing raises \<open>ValueError\<close>), the bot layer's command
  predicate, the API client manager, the clock, and the Unicode character database beyond
  ASCII.
\<close>

record env =
  json_loads :: "pybytes \<Rightarrow> json option"
  is_cmd :: "json \<Rightarrow> bool"
  mgr_auth :: "pystr \<Rightarrow> pystr \<Rightarrow> bool"
  mgr_get_name :: "pystr \<Rightarrow> pystr"
  queue_key :: "pystr \<Rightarrow> pystr"
  now_date :: pystr
  now_time :: pystr
  uni_isspace :: "nat \<Rightarrow> bool"
  uni_isalnum :: "nat \<Rightarrow> bool"

subsection \<open>The response under construction\<close>

datatype bus_event = Published message | Called message

datatype payload = Plain pystr | Json "(pystr \<times> json) list" | Redirect

text \<open>
  A request handler: the status code and the chunks written so far, the response as it was
  flushed by \<open>finish\<close>, the exception that left the handler (if any), the attribute
  \<open>json_data\<close>, and what was handed to the bus \<open>mgb_im2fish\<close>, oldest first.
\<close>

record handler =
  status :: nat
  written :: "payload list"
  sent :: "(nat \<times> payload list) option"
  raised :: "pyexc option"
  json_data :: "json option"
  bus :: "bus_event list"

definition new_handler :: handler where
  "new_handler = \<lparr>status = 200, written = [], sent = None, raised = None,
     json_data = None, bus = []\<rparr>"

definition finished :: "handler \<Rightarrow> bool" where
  "finished s = (sent s \<noteq> None)"

text \<open>After an exception no further statement of the handler runs.\<close>

definition raise :: "pyexc \<Rightarrow> handler \<Rightarrow> handler" where
  "raise e s = (if raised s \<noteq> None then s else s\<lparr>raised := Some e\<rparr>)"

definition set_status :: "nat \<Rightarrow> handler \<Rightarrow> handler" where
  "set_status code s = (if raised s \<noteq> None then s else s\<lparr>status := code\<rparr>)"

text \<open>\<open>RequestHandler.write\<close> (here \<open>write_out\<close>) and \<open>finish\<close> refuse a finished request.\<close>

definition write_out :: "payload \<Rightarrow> handler \<Rightarrow> handler" where
  "write_out p s =
     (if raised s \<noteq> None then s
      else if finished s then raise RuntimeError s
      else s\<lparr>written := written s @ [p]\<rparr>)"

definition finish :: "handler \<Rightarrow> handler" where
  "finish s =
     (if raised s \<noteq> None then s
      else if finished s then raise RuntimeError s
      else s\<lparr>sent := Some (status s, written s)\<rparr>)"

definition finish_with :: "payload \<Rightarrow> handler \<Rightarrow> handler" where
  "finish_with p s =
     (if raised s \<noteq> None then s
      else if finished s then raise RuntimeError s
      else finish (write_out p s))"

definition write_json :: "nat \<Rightarrow> (pystr \<times> json) list \<Rightarrow> handler \<Rightarrow> handler" where
  "write_json status_code kwargs s = write_out (Json kwargs) (set_status status_code s)"

text \<open>
  Modelled from the spec: class \<open>MessageBus\<close> (module \<open>..bus\<close>) is missing.  The relay
  hands the message to the bus and returns; the model records the hand-over.  The web
  handler calls \<open>mgb_im2fish.publish(msg)\<close>, the API handler calls the bus object itself,
  \<open>mgb_im2fish(msg)\<close>.
\<close>

definition to_bus :: "bus_event \<Rightarrow> handler \<Rightarrow> handler" where
  "to_bus ev s = (if raised s \<noteq> None then s else s\<lparr>bus := bus s @ [ev]\<rparr>)"


section \<open>The handlers\<close>

subsection \<open>Helpers of the library\<close>

text \<open>
  \<open>str.strip()\<close> removes the white space at both ends; \<open>re.match(r'^\w', s, flags=re.UNICODE)\<close>
  succeeds iff \<open>s\<close> starts with a word character: an alphanumeric one or the underscore.
  Below code point 128 both classes are written out.
\<close>

definition py_isspace :: "env \<Rightarrow> nat \<Rightarrow> bool" where
  "py_isspace e c =
     (if c < 128 then (9 \<le> c \<and> c \<le> 13) \<or> (28 \<le> c \<and> c \<le> 32) else uni_isspace e c)"

definition py_isalnum :: "env \<Rightarrow> nat \<Rightarrow> bool" where
  "py_isalnum e c =
     (if c < 128 then (48 \<le> c \<and> c \<le> 57) \<or> (65 \<le> c \<and> c \<le> 90) \<or> (97 \<le> c \<and> c \<le> 122)
      else uni_isalnum e c)"

definition strip :: "env \<Rightarrow> pystr \<Rightarrow> pystr" where
  "strip e s = rev (dropWhile (py_isspace e) (rev (dropWhile (py_isspace e) s)))"

definition word_char :: "env \<Rightarrow> nat \<Rightarrow> bool" where
  "word_char e c = (py_isalnum e c \<or> c = 95)"

definition re_match_word :: "env \<Rightarrow> pystr \<Rightarrow> bool" where
  "re_match_word e s = (case s of [] \<Rightarrow> False | c # _ \<Rightarrow> word_char e c)"

text \<open>
  \<open>self.get_argument(name, default)\<close>, the default being \<open>None\<close> or a string.  \<open>req_arguments\<close>
  holds the decoded value of the last occurrence of each argument of the request.  Tornado
  replaces the control characters \<open>[\x00-\x08\x0e-\x1f]\<close> of the value by a space and, with
  the default \<open>strip=True\<close>, strips the result; a default is returned as it is.
\<close>

definition remove_control_chars :: "pystr \<Rightarrow> pystr" where
  "remove_control_chars s = map (\<lambda>c. if c \<le> 8 \<or> (14 \<le> c \<and> c \<le> 31) then 32 else c) s"

definition get_argument :: "env \<Rightarrow> request \<Rightarrow> pystr \<Rightarrow> pystr option \<Rightarrow> pystr option" where
  "get_argument e req name dflt =
     (case req_arguments req name of
        None \<Rightarrow> dflt
      | Some v \<Rightarrow> Some (strip e (remove_control_chars v)))"

text \<open>\<open>self.redirect(url)\<close>: status 302, the location, and the request is finished.\<close>

definition redirect :: "handler \<Rightarrow> handler" where
  "redirect s = finish (write_out Redirect (set_status 302 s))"

subsection \<open>The checks shared by the handlers\<close>

text \<open>\<open>room not in config["bindings"] or room in config.get("private_rooms", [])\<close>\<close>

definition room_not_found :: "config \<Rightarrow> pystr \<Rightarrow> bool" where
  "room_not_found cfg room =
     (bindings cfg room = None \<or>
      room \<in> set (case private_rooms cfg of None \<Rightarrow> [] | Some rs \<Rightarrow> rs))"

text \<open>\<open>not config["bindings"].get(room, {}).get("web_post", True)\<close>\<close>

definition web_post_disabled :: "config \<Rightarrow> pystr \<Rightarrow> bool" where
  "web_post_disabled cfg room =
     (case bindings cfg room of
        None \<Rightarrow> False
      | Some b \<Rightarrow> (case web_post b of None \<Rightarrow> False | Some flag \<Rightarrow> \<not> flag))"

text \<open>\<open>BaseHandler.get_current_user\<close> and the decorator \<open>authenticated\<close>.\<close>

definition get_current_user :: "request \<Rightarrow> pybytes option" where
  "get_current_user req = req_session req"

definition logged_in :: "request \<Rightarrow> bool" where
  "logged_in req = (case get_current_user req of None \<Rightarrow> False | Some c \<Rightarrow> c \<noteq> [])"

definition authenticated ::
  "config \<Rightarrow> request \<Rightarrow> (handler \<Rightarrow> handler) \<Rightarrow> handler \<Rightarrow> handler" where
  "authenticated cfg req method s =
     (if github cfg \<and> \<not> logged_in req then
        (if req_method req = GET \<or> req_method req = HEAD then redirect s
         else raise (HTTPError 403) s)
      else method s)"

subsection \<open>\<open>PostMessageHandler\<close>\<close>

definition msg_kw :: "string \<Rightarrow> string \<Rightarrow> (pystr \<times> json) list" where
  "msg_kw k v = [(u k, JStr (u v))]"

text \<open>The body of \<open>PostMessageHandler.post\<close>, as written under the decorator.\<close>

definition PostMessageHandler_post_body ::
  "env \<Rightarrow> config \<Rightarrow> request \<Rightarrow> pystr \<Rightarrow> handler \<Rightarrow> handler" where
  "PostMessageHandler_post_body e cfg req room s =
     (if room_not_found cfg room then
        finish_with (Plain (u ''Room not found'')) (set_status 404 s)
      else if web_post_disabled cfg room then
        finish (write_json 403 (msg_kw ''message'' ''Web post is disabled.'') s)
      else
        (case json_loads e (req_body req) of
           None \<Rightarrow> finish (write_json 400 (msg_kw ''message'' ''Unable to parse JSON.'') s)
         | Some jd \<Rightarrow>
            (let s1 = s\<lparr>json_data := Some jd\<rparr> in
             case jd of
               JObj d \<Rightarrow>
                 (let content = dict_get d (u ''content'') JNull in
                  if \<not> truthy content then
                    finish (write_json 400 (msg_kw ''msg'' ''Cannot send empty message'') s1)
                  else
                    (case dict_get d (u ''nickname'') (JStr []) of
                       JStr nickname \<Rightarrow>
                         (let sender = strip e nickname in
                          if sender = [] then
                            finish (write_json 400 (msg_kw ''msg'' ''Nickname must be set'') s1)
                          else if \<not> re_match_word e sender then
                            finish (write_json 400
                              (msg_kw ''msg'' ''Invalid char found, use a human's nickname instead!'') s1)
                          else
                            (let mtype = (if is_cmd e content then Command else Text);
                                 msg = \<lparr>msg_channel = ChannelWeb, msg_sender = JStr sender,
                                        msg_receiver = room, msg_content = content,
                                        msg_mtype = mtype, msg_date = now_date e,
                                        msg_time = now_time e, msg_room = room\<rparr>
                             in finish (write_json 200 (msg_kw ''msg'' ''OK'')
                                  (to_bus (Published msg) s1))))
                     | _ \<Rightarrow> raise AttributeError s1))
             | _ \<Rightarrow> raise AttributeError s1)))"

definition PostMessageHandler_post ::
  "env \<Rightarrow> config \<Rightarrow> request \<Rightarrow> pystr \<Rightarrow> handler \<Rightarrow> handler" where
  "PostMessageHandler_post e cfg req room =
     authenticated cfg req (PostMessageHandler_post_body e cfg req room)"

subsection \<open>\<open>APIRequestHandler\<close> and \<open>APIPostMessageHandler\<close>\<close>

text \<open>\<open>self.request.headers.get(name, self.get_argument(arg, ""))\<close>\<close>

definition header_or_argument :: "env \<Rightarrow> request \<Rightarrow> pystr \<Rightarrow> pystr \<Rightarrow> pystr" where
  "header_or_argument e req name arg =
     (case req_headers req name of
        Some v \<Rightarrow> v
      | None \<Rightarrow> (case get_argument e req arg (Some []) of Some v \<Rightarrow> v | None \<Rightarrow> []))"

definition APIRequestHandler_auth :: "env \<Rightarrow> request \<Rightarrow> handler \<Rightarrow> pystr option \<times> handler" where
  "APIRequestHandler_auth e req s =
     (let token_id = header_or_argument e req (u ''X-TOKEN-ID'') (u ''id'');
          token_key = header_or_argument e req (u ''X-TOKEN-KEY'') (u ''key'');
          fine = mgr_auth e token_id token_key
      in if \<not> fine then (None, set_status 403 s) else (Some token_id, s))"

definition APIPostMessageHandler_prepare :: "env \<Rightarrow> request \<Rightarrow> handler \<Rightarrow> handler" where
  "APIPostMessageHandler_prepare e req s =
     (if req_body req \<noteq> [] then
        (case json_loads e (req_body req) of
           Some jd \<Rightarrow> s\<lparr>json_data := Some jd\<rparr>
         | None \<Rightarrow> finish (write_json 400 (msg_kw ''message'' ''Unable to parse JSON.'') s))
      else finish (write_json 400 (msg_kw ''message'' ''Cannot handle empty request'') s))"

text \<open>
  \<open>APIPostMessageHandler.post\<close>.  The branch for empty content writes and finishes the
  response and has no \<open>return\<close>: the statements after it run on the finished handler.
\<close>

definition APIPostMessageHandler_post ::
  "env \<Rightarrow> config \<Rightarrow> request \<Rightarrow> pystr \<Rightarrow> handler \<Rightarrow> handler" where
  "APIPostMessageHandler_post e cfg req room s =
     (if room_not_found cfg room then
        finish_with (Plain (u ''Room not found'')) (set_status 404 s)
      else
        (case APIRequestHandler_auth e req s of
           (None, s1) \<Rightarrow> finish_with (Plain (u ''Invalid Token'')) s1
         | (Some token_id, s1) \<Rightarrow>
            (case json_data s1 of
               Some (JObj d) \<Rightarrow>
                 (let content = dict_get d (u ''content'') JNull;
                      s2 = (if \<not> truthy content then
                              finish (write_json 400
                                (msg_kw ''message'' ''Cannot send empty message'') s1)
                            else s1);
                      apiname = mgr_get_name e token_id;
                      sender = dict_get d (u ''sender'') (JStr apiname);
                      mtype = (if is_cmd e content then Command else Text);
                      msg = \<lparr>msg_channel = ChannelAPI apiname, msg_sender = sender,
                             msg_receiver = room, msg_content = content,
                             msg_mtype = mtype, msg_date = now_date e,
                             msg_time = now_time e, msg_room = room\<rparr>
                  in finish (write_json 200 (msg_kw ''message'' ''OK'') (to_bus (Called msg) s2)))
             | _ \<Rightarrow> raise AttributeError s1)))"

text \<open>
  How \<open>tornado.web.RequestHandler\<close> runs a POST request of this handler: \<open>prepare\<close> first,
  and the method only if \<open>prepare\<close> neither finished the request nor raised.
\<close>

definition APIPostMessageHandler_execute ::
  "env \<Rightarrow> config \<Rightarrow> request \<Rightarrow> pystr \<Rightarrow> handler \<Rightarrow> handler" where
  "APIPostMessageHandler_execute e cfg req room s =
     (let s1 = APIPostMessageHandler_prepare e req s
      in if finished s1 then s1
         else if raised s1 \<noteq> None then s1
         else APIPostMessageHandler_post e cfg req room s1)"

subsection \<open>The shared store and \<open>APILongPollingHandler\<close>\<close>

text \<open>
  The Redis lists the handler reads, by key.  A key with no list is the empty list, and
  Redis keeps no empty list.
\<close>

type_synonym store = "pystr \<rightharpoonup> pybytes list"

definition list_at :: "store \<Rightarrow> pystr \<Rightarrow> pybytes list" where
  "list_at st k = (case st k of None \<Rightarrow> [] | Some xs \<Rightarrow> xs)"

definition llen :: "store \<Rightarrow> pystr \<Rightarrow> nat" where
  "llen st k = length (list_at st k)"

text \<open>\<open>LRANGE key start stop\<close>: both ends inclusive, negative indices count from the end.\<close>

definition lrange :: "store \<Rightarrow> pystr \<Rightarrow> int \<Rightarrow> int \<Rightarrow> pybytes list" where
  "lrange st k start stop =
     (let xs = list_at st k; n = int (length xs);
          i = (if start < 0 then max (n + start) 0 else start);
          j = (if stop < 0 then n + stop else min stop (n - 1))
      in if i > j then [] else take (nat (j - i + 1)) (drop (nat i) xs))"

definition delete :: "store \<Rightarrow> pystr \<Rightarrow> store" where
  "delete st k = st(k := None)"

text \<open>
  Modelled from the spec: \<open>APIClientManager\<close> (module \<open>..api_client\<close>) is missing;
  \<open>Enqueue(token_id, message)\<close> appends the serialized message to the list of the token's
  queue.
\<close>

definition Enqueue :: "store \<Rightarrow> pystr \<Rightarrow> pybytes \<Rightarrow> store" where
  "Enqueue st k m = st(k \<mapsto> list_at st k @ [m])"

text \<open>\<open>[json.loads(m) for m in msgs]\<close>: the first entry that does not parse raises.\<close>

fun loads_all :: "env \<Rightarrow> pybytes list \<Rightarrow> pyexc + json list" where
  "loads_all e [] = Inr []"
| "loads_all e (m # ms) =
     (case json_loads e m of
        None \<Rightarrow> Inl ValueError
      | Some v \<Rightarrow> (case loads_all e ms of Inl x \<Rightarrow> Inl x | Inr vs \<Rightarrow> Inr (v # vs)))"

text \<open>
  \<open>[m for m in msgs if m['room'] == room]\<close>: subscripting a dict without the key raises
  \<open>KeyError\<close>, subscripting any other JSON value with a string raises \<open>TypeError\<close>.
\<close>

fun filter_room :: "pystr \<Rightarrow> json list \<Rightarrow> pyexc + json list" where
  "filter_room room [] = Inr []"
| "filter_room room (m # ms) =
     (case m of
        JObj d \<Rightarrow>
          (case map_of d (u ''room'') of
             None \<Rightarrow> Inl KeyError
           | Some r \<Rightarrow>
              (case filter_room room ms of
                 Inl x \<Rightarrow> Inl x
               | Inr vs \<Rightarrow> Inr (if r = JStr room then m # vs else vs)))
      | _ \<Rightarrow> Inl TypeError)"

text \<open>
  Lines 344 to 354: the pending entries of the queue.  With entries pending they are read
  and the list is deleted; otherwise the handler waits in \<open>BLPOP\<close> for at most 10 seconds.
  \<open>ret\<close> is the reply to that blocking pop, a dict from the key to the popped entry, empty
  when the wait timed out (a timeout yields no message); the popped entry never stays in
  the list.
\<close>

definition fetch ::
  "env \<Rightarrow> store \<Rightarrow> pystr \<Rightarrow> (pystr \<rightharpoonup> pybytes) \<Rightarrow> (pyexc + json list) \<times> store" where
  "fetch e st queue ret =
     (let l = llen st queue in
      if l > 0 then
        (let msgs = lrange st queue 0 (- 1);
             st1 = delete st queue
         in (loads_all e msgs, st1))
      else
        (case ret queue of
           Some m \<Rightarrow> (loads_all e [m], st)
         | None \<Rightarrow> (Inr [], st)))"

text \<open>
  \<open>APILongPollingHandler.get\<close>.  The room is read with the default \<open>None\<close>, and the keys of
  the bindings are room ids: \<open>room not in config["bindings"]\<close> holds for \<open>None\<close>.
\<close>

definition APILongPollingHandler_get ::
  "env \<Rightarrow> config \<Rightarrow> request \<Rightarrow> (pystr \<rightharpoonup> pybytes) \<Rightarrow> store \<Rightarrow> handler \<Rightarrow> handler \<times> store" where
  "APILongPollingHandler_get e cfg req ret st s =
     (case APIRequestHandler_auth e req s of
        (None, s1) \<Rightarrow> (finish_with (Plain (u ''Invalid Token'')) s1, st)
      | (Some token_id, s1) \<Rightarrow>
         (let room = get_argument e req (u ''room'') None in
          if (case room of None \<Rightarrow> True | Some r \<Rightarrow> room_not_found cfg r) then
            (finish_with (Plain (u ''Room not found'')) (set_status 404 s1), st)
          else
            (let queue = queue_key e token_id in
             case fetch e st queue ret of
               (Inl x, st1) \<Rightarrow> (raise x s1, st1)
             | (Inr msgs, st1) \<Rightarrow>
                (case (case room of
                         None \<Rightarrow> Inr msgs
                       | Some r \<Rightarrow> if r \<noteq> [] then filter_room r msgs else Inr msgs) of
                   Inl x \<Rightarrow> (raise x s1, st1)
                 | Inr msgs1 \<Rightarrow>
                    (finish (write_json 200 [(u ''messages'', JArr msgs1)] s1), st1)))))"

section \<open>A test bench\<close>

text \<open>
  A concrete environment, configuration and requests, on which the theorems below are
  instantiated.  The parser knows the bodies and queue entries of the table; every other
  byte string is not JSON for it.  Room \<open>general\<close> leaves \<open>web_post\<close> unset, room
  \<open>readonly\<close> sets it to false, room \<open>staff\<close> is private.
\<close>

definition test_bodies :: "(pybytes \<times> json) list" where
  \<open>test_bodies =
     [(''{"content": "hello", "nickname": "alice"}'',
         JObj [(u ''content'', JStr (u ''hello'')), (u ''nickname'', JStr (u ''alice''))]),
      (''{"content": "hello", "nickname": "3"}'',
         JObj [(u ''content'', JStr (u ''hello'')), (u ''nickname'', JStr (u ''3''))]),
      (''{"content": "hello", "nickname": "#bot"}'',
         JObj [(u ''content'', JStr (u ''hello'')), (u ''nickname'', JStr (u ''#bot''))]),
      (''{"content": "hello", "nickname": "bot1"}'',
         JObj [(u ''content'', JStr (u ''hello'')), (u ''nickname'', JStr (u ''bot1''))]),
      (''{"content": "hello", "nickname": "  "}'',
         JObj [(u ''content'', JStr (u ''hello'')), (u ''nickname'', JStr (u ''  ''))]),
      (''{"content": "", "nickname": "alice"}'',
         JObj [(u ''content'', JStr []), (u ''nickname'', JStr (u ''alice''))]),
      (''{"content": "hello"}'', JObj [(u ''content'', JStr (u ''hello''))]),
      (''{"content": ""}'', JObj [(u ''content'', JStr [])]),
      (''{"room": "general", "content": "hello"}'',
         JObj [(u ''room'', JStr (u ''general'')), (u ''content'', JStr (u ''hello''))]),
      (''{"room": "dev", "content": "patch"}'',
         JObj [(u ''room'', JStr (u ''dev'')), (u ''content'', JStr (u ''patch''))])]\<close>

definition test_env :: env where
  "test_env =
     \<lparr>json_loads = map_of test_bodies,
      is_cmd = (\<lambda>c. case c of JStr (c0 # _) \<Rightarrow> c0 = 47 | _ \<Rightarrow> False),
      mgr_auth = (\<lambda>token_id token_key. token_id = u ''tok1'' \<and> token_key = u ''s3cret''),
      mgr_get_name = (\<lambda>token_id. u ''app''),
      queue_key = (\<lambda>token_id. u ''queue:'' @ token_id),
      now_date = u ''2016-05-01'',
      now_time = u ''12:00:00'',
      uni_isspace = (\<lambda>c. False),
      uni_isalnum = (\<lambda>c. False)\<rparr>"

definition test_config :: config where
  "test_config =
     \<lparr>bindings = [u ''general'' \<mapsto> \<lparr>web_post = None\<rparr>,
                  u ''dev'' \<mapsto> \<lparr>web_post = Some True\<rparr>,
                  u ''readonly'' \<mapsto> \<lparr>web_post = Some False\<rparr>,
                  u ''staff'' \<mapsto> \<lparr>web_post = None\<rparr>],
      private_rooms = Some [u ''staff''],
      github = False\<rparr>"

text \<open>A web post with the given body, and an API request with the given token and body.\<close>

definition web_request :: "pybytes \<Rightarrow> request" where
  "web_request body =
     \<lparr>req_method = POST, req_headers = Map.empty, req_arguments = Map.empty,
      req_body = body, req_session = None\<rparr>"

definition api_request ::
  "http_method \<Rightarrow> pystr \<Rightarrow> pystr \<Rightarrow> (pystr \<rightharpoonup> pystr) \<Rightarrow> pybytes \<Rightarrow> request" where
  "api_request m token_id token_key args body =
     \<lparr>req_method = m,
      req_headers = [u ''X-TOKEN-ID'' \<mapsto> token_id, u ''X-TOKEN-KEY'' \<mapsto> token_key],
      req_arguments = args, req_body = body, req_session = None\<rparr>"

definition test_store :: store where
  \<open>test_store =
     [u ''queue:tok1'' \<mapsto> [''{"room": "general", "content": "hello"}'',
                              ''{"room": "dev", "content": "patch"}'']]\<close>

section \<open>Vocabulary of the properties\<close>

text \<open>The login gate of \<open>authenticated\<close> lets the request through.\<close>

definition gate_open :: "config \<Rightarrow> request \<Rightarrow> bool" where
  "gate_open cfg req = (\<not> github cfg \<or> logged_in req)"

text \<open>The token id a request presents, and whether its secret authenticates.\<close>

definition request_token_id :: "env \<Rightarrow> request \<Rightarrow> pystr" where
  "request_token_id e req = header_or_argument e req (u ''X-TOKEN-ID'') (u ''id'')"

definition presents_valid_token :: "env \<Rightarrow> request \<Rightarrow> bool" where
  "presents_valid_token e req =
     mgr_auth e (header_or_argument e req (u ''X-TOKEN-ID'') (u ''id''))
               (header_or_argument e req (u ''X-TOKEN-KEY'') (u ''key''))"

text \<open>The rejection of a web post to a room whose \<open>web_post\<close> flag is false.\<close>

definition posting_disabled_response :: "handler \<Rightarrow> (nat \<times> payload list) option" where
  "posting_disabled_response s =
     Some (403, written s @ [Json (msg_kw ''message'' ''Web post is disabled.'')])"

text \<open>The answer of a long poll, and the room of a queue entry.\<close>

definition messages_response :: "handler \<Rightarrow> json list \<Rightarrow> (nat \<times> payload list) option" where
  "messages_response s ms = Some (200, written s @ [Json [(u ''messages'', JArr ms)]])"


section \<open>Basic facts\<close>

lemmas prim_defs = finish_with_def finish_def write_out_def set_status_def write_json_def
  raise_def finished_def to_bus_def

lemma finish_with_fresh:
  "raised s = None \<Longrightarrow> sent s = None \<Longrightarrow>
   finish_with p (set_status c s) =
     s\<lparr>status := c, written := written s @ [p], sent := Some (c, written s @ [p])\<rparr>"
  by (simp add: prim_defs)

lemma finish_json_fresh:
  "raised s = None \<Longrightarrow> sent s = None \<Longrightarrow>
   finish (write_json c kw s) =
     s\<lparr>status := c, written := written s @ [Json kw], sent := Some (c, written s @ [Json kw])\<rparr>"
  by (simp add: prim_defs)

lemma post_gate_open:
  "gate_open cfg req \<Longrightarrow>
   PostMessageHandler_post e cfg req room s = PostMessageHandler_post_body e cfg req room s"
  by (auto simp: gate_open_def PostMessageHandler_post_def authenticated_def)

lemma auth_invalid:
  "\<not> presents_valid_token e req \<Longrightarrow> raised s = None \<Longrightarrow>
   APIRequestHandler_auth e req s = (None, s\<lparr>status := 403\<rparr>)"
  by (simp add: presents_valid_token_def APIRequestHandler_auth_def set_status_def)

lemma auth_valid:
  "presents_valid_token e req \<Longrightarrow>
   APIRequestHandler_auth e req s = (Some (request_token_id e req), s)"
  by (simp add: presents_valid_token_def request_token_id_def APIRequestHandler_auth_def)

lemma prepare_fresh:
  assumes "raised s = None" and "sent s = None"
  shows "raised (APIPostMessageHandler_prepare e req s) = None"
    and "bus (APIPostMessageHandler_prepare e req s) = bus s"
  using assms
  by (simp_all add: APIPostMessageHandler_prepare_def prim_defs split: option.splits)

lemma execute_parsed:
  assumes "req_body req \<noteq> []" and "json_loads e (req_body req) = Some jd"
    and "sent s = None" and "raised s = None"
  shows "APIPostMessageHandler_execute e cfg req room s =
         APIPostMessageHandler_post e cfg req room (s\<lparr>json_data := Some jd\<rparr>)"
  using assms
  by (simp add: APIPostMessageHandler_execute_def APIPostMessageHandler_prepare_def finished_def)

text \<open>The word characters below code point 128 do not depend on the environment.\<close>

lemma word_char_examples:
  "\<not> re_match_word e (u ''#bot'')" "re_match_word e (u ''3'')" "re_match_word e (u ''bot1'')"
  by (simp_all add: re_match_word_def word_char_def py_isalnum_def u_def)

lemma strip_examples:
  "strip e (u ''#bot'') = u ''#bot''" "strip e (u ''3'') = u ''3''"
  "strip e (u ''bot1'') = u ''bot1''"
  by (simp_all add: strip_def py_isspace_def u_def)

subsection \<open>The queue\<close>

lemma lrange_all: "lrange st k 0 (- 1) = list_at st k"
  by (cases "list_at st k") (simp_all add: lrange_def Let_def)

lemma list_at_delete: "list_at (delete st k) k = []"
  by (simp add: list_at_def delete_def)

lemma list_at_Enqueue: "list_at (Enqueue st q m) q = list_at st q @ [m]"
  by (simp add: Enqueue_def list_at_def)

lemma delete_Enqueue_fresh: "st q = None \<Longrightarrow> delete (Enqueue st q m) q = st"
  by (auto simp: delete_def Enqueue_def)

lemma fetch_pending:
  "list_at st q \<noteq> [] \<Longrightarrow> fetch e st q ret = (loads_all e (list_at st q), delete st q)"
  by (simp add: fetch_def llen_def lrange_all Let_def)

lemma fetch_idle:
  "list_at st q = [] \<Longrightarrow> fetch e st q Map.empty = (Inr [], st)"
  by (simp add: fetch_def llen_def)

lemma fetch_leaves_nothing: "list_at (snd (fetch e st q ret)) q = []"
  by (cases "list_at st q = []")
     (auto simp: fetch_def llen_def Let_def list_at_delete split: option.splits)


subsection \<open>The long poll, case by case\<close>

lemma get_invalid_token:
  assumes "\<not> presents_valid_token e req" and "raised s = None" and "sent s = None"
  shows "APILongPollingHandler_get e cfg req ret st s =
     (s\<lparr>status := 403, written := written s @ [Plain (u ''Invalid Token'')],
        sent := Some (403, written s @ [Plain (u ''Invalid Token'')])\<rparr>, st)"
  using assms
  by (simp add: APILongPollingHandler_get_def auth_invalid prim_defs)

lemma get_no_room:
  assumes "presents_valid_token e req" and "get_argument e req (u ''room'') None = None"
    and "raised s = None" and "sent s = None"
  shows "APILongPollingHandler_get e cfg req ret st s =
     (s\<lparr>status := 404, written := written s @ [Plain (u ''Room not found'')],
        sent := Some (404, written s @ [Plain (u ''Room not found'')])\<rparr>, st)"
  using assms
  by (simp add: APILongPollingHandler_get_def auth_valid finish_with_fresh)

lemma get_room:
  assumes "presents_valid_token e req" and "get_argument e req (u ''room'') None = Some r"
    and "\<not> room_not_found cfg r" and "r \<noteq> []"
  shows "APILongPollingHandler_get e cfg req ret st s =
     (case fetch e st (queue_key e (request_token_id e req)) ret of
        (Inl x, st1) \<Rightarrow> (raise x s, st1)
      | (Inr msgs, st1) \<Rightarrow>
          (case filter_room r msgs of
             Inl x \<Rightarrow> (raise x s, st1)
           | Inr msgs1 \<Rightarrow> (finish (write_json 200 [(u ''messages'', JArr msgs1)] s), st1)))"
  using assms
  by (simp add: APILongPollingHandler_get_def auth_valid split: prod.splits sum.splits)


lemma get_room_pending:
  assumes "presents_valid_token e req" and "get_argument e req (u ''room'') None = Some r"
    and "\<not> room_not_found cfg r" and "r \<noteq> []"
    and "raised s = None" and "sent s = None"
    and "list_at st (queue_key e (request_token_id e req)) \<noteq> []"
    and "loads_all e (list_at st (queue_key e (request_token_id e req))) = Inr ms"
    and "filter_room r ms = Inr ms'"
  shows "APILongPollingHandler_get e cfg req ret st s =
     (s\<lparr>status := 200, written := written s @ [Json [(u ''messages'', JArr ms')]],
        sent := messages_response s ms'\<rparr>,
      delete st (queue_key e (request_token_id e req)))"
  using assms(5-9)
  by (simp add: get_room[OF assms(1-4)] fetch_pending finish_json_fresh messages_response_def)

subsection \<open>The test bench\<close>

lemmas bench_defs = test_env_def test_config_def test_bodies_def web_request_def
  api_request_def u_def

lemmas handler_defs = PostMessageHandler_post_def PostMessageHandler_post_body_def
  authenticated_def logged_in_def get_current_user_def
  APIPostMessageHandler_execute_def APIPostMessageHandler_prepare_def
  APIPostMessageHandler_post_def APIRequestHandler_auth_def header_or_argument_def
  get_argument_def remove_control_chars_def room_not_found_def web_post_disabled_def
  dict_get_def msg_kw_def
  strip_def py_isspace_def re_match_word_def word_char_def py_isalnum_def new_handler_def

lemmas poll_defs = APILongPollingHandler_get_def APIRequestHandler_auth_def
  header_or_argument_def get_argument_def remove_control_chars_def strip_def py_isspace_def
  room_not_found_def fetch_def llen_def list_at_def lrange_def delete_def test_store_def
  new_handler_def

lemma new_handler_fresh: "raised new_handler = None" "sent new_handler = None"
  "written new_handler = []" "bus new_handler = []"
  by (simp_all add: new_handler_def)

lemma bench_rooms:
  "room_not_found test_config (u ''nowhere'')" "room_not_found test_config (u ''staff'')"
  "\<not> room_not_found test_config (u ''general'')" "\<not> room_not_found test_config (u ''readonly'')"
  "\<not> room_not_found test_config (u ''dev'')"
  by (simp_all add: room_not_found_def bench_defs)

lemma bench_gate: "gate_open test_config req"
  by (simp add: gate_open_def test_config_def)



lemma bench_queue: "queue_key test_env (u ''tok1'') = u ''queue:tok1''"
  by (simp add: bench_defs)


section \<open>Rooms\<close>

text \<open>
  Claim C1.  A post to a room that is not in the bindings, or that is private, is answered
  404 \<open>Room not found\<close> by \<open>PostMessageHandler.post\<close> and by \<open>APIPostMessageHandler.post\<close>, and
  nothing is handed to the bus: not by the method, not behind the decorator, and not by the
  API request as a whole, which runs \<open>prepare\<close> first.  The check is the first statement of
  both methods, so the answer of the whole request is this one whenever the method is
  reached: with the login gate open, respectively with a body that \<open>prepare\<close> accepted.
\<close>

theorem unknown_room_is_not_found:
  assumes "room_not_found cfg room" and "raised s = None" and "sent s = None"
  shows "sent (PostMessageHandler_post_body e cfg req room s) =
           Some (404, written s @ [Plain (u ''Room not found'')])
       \<and> bus (PostMessageHandler_post_body e cfg req room s) = bus s
       \<and> sent (APIPostMessageHandler_post e cfg req room s) =
           Some (404, written s @ [Plain (u ''Room not found'')])
       \<and> bus (APIPostMessageHandler_post e cfg req room s) = bus s
       \<and> bus (PostMessageHandler_post e cfg req room s) = bus s
       \<and> bus (APIPostMessageHandler_execute e cfg req room s) = bus s
       \<and> (gate_open cfg req \<longrightarrow>
            sent (PostMessageHandler_post e cfg req room s) =
              Some (404, written s @ [Plain (u ''Room not found'')]))
       \<and> (req_body req \<noteq> [] \<and> json_loads e (req_body req) \<noteq> None \<longrightarrow>
            sent (APIPostMessageHandler_execute e cfg req room s) =
              Some (404, written s @ [Plain (u ''Room not found'')]))"
proof -
  have web: "PostMessageHandler_post_body e cfg req room s =
      s\<lparr>status := 404, written := written s @ [Plain (u ''Room not found'')],
        sent := Some (404, written s @ [Plain (u ''Room not found'')])\<rparr>"
    using assms by (simp add: PostMessageHandler_post_body_def finish_with_fresh)
  have api: "APIPostMessageHandler_post e cfg req room s' =
      s'\<lparr>status := 404, written := written s' @ [Plain (u ''Room not found'')],
        sent := Some (404, written s' @ [Plain (u ''Room not found'')])\<rparr>"
    if "raised s' = None" and "sent s' = None" for s'
    using assms(1) that by (simp add: APIPostMessageHandler_post_def finish_with_fresh)
  have gate: "bus (PostMessageHandler_post e cfg req room s) = bus s"
    using assms web
    by (simp add: PostMessageHandler_post_def authenticated_def redirect_def prim_defs)
  have exec: "bus (APIPostMessageHandler_execute e cfg req room s) = bus s"
  proof (cases "finished (APIPostMessageHandler_prepare e req s)")
    case True
    then show ?thesis
      using prepare_fresh(2)[OF assms(2,3)] by (simp add: APIPostMessageHandler_execute_def)
  next
    case False
    then have "sent (APIPostMessageHandler_prepare e req s) = None"
      unfolding finished_def by blast
    then show ?thesis
      using False prepare_fresh[OF assms(2,3), of e req]
      by (simp add: APIPostMessageHandler_execute_def Let_def api)
  qed
  have exec2: "sent (APIPostMessageHandler_execute e cfg req room s) =
        Some (404, written s @ [Plain (u ''Room not found'')])"
    if "req_body req \<noteq> []" and "json_loads e (req_body req) \<noteq> None"
  proof -
    from that(2) obtain jd where "json_loads e (req_body req) = Some jd" by blast
    then show ?thesis
      using assms(2,3) that(1) by (simp add: execute_parsed api)
  qed
  show ?thesis
    using web api[OF assms(2,3)] gate exec exec2 by (simp add: post_gate_open)
qed

theorem unknown_room_witness:
  \<open>room_not_found test_config (u ''nowhere'')
   \<and> room_not_found test_config (u ''staff'')
   \<and> sent (PostMessageHandler_post test_env test_config
        (web_request ''{"content": "hello", "nickname": "alice"}'') (u ''staff'') new_handler) =
       Some (404, [Plain (u ''Room not found'')])
   \<and> bus (PostMessageHandler_post test_env test_config
        (web_request ''{"content": "hello", "nickname": "alice"}'') (u ''staff'') new_handler) = []
   \<and> sent (PostMessageHandler_post test_env test_config
        (web_request ''{"content": "hello", "nickname": "alice"}'') (u ''nowhere'') new_handler) =
       Some (404, [Plain (u ''Room not found'')])
   \<and> bus (PostMessageHandler_post test_env test_config
        (web_request ''{"content": "hello", "nickname": "alice"}'') (u ''nowhere'') new_handler) = []
   \<and> sent (APIPostMessageHandler_execute test_env test_config
        (api_request POST (u ''tok1'') (u ''s3cret'') Map.empty ''{"content": "hello"}'')
        (u ''nowhere'') new_handler) =
       Some (404, [Plain (u ''Room not found'')])
   \<and> bus (APIPostMessageHandler_execute test_env test_config
        (api_request POST (u ''tok1'') (u ''s3cret'') Map.empty ''{"content": "hello"}'')
        (u ''nowhere'') new_handler) = []\<close>
proof -
  have body: \<open>req_body (api_request POST (u ''tok1'') (u ''s3cret'') Map.empty
        ''{"content": "hello"}'') \<noteq> []
      \<and> json_loads test_env (req_body (api_request POST (u ''tok1'') (u ''s3cret'') Map.empty
        ''{"content": "hello"}'')) \<noteq> None\<close>
    by (simp add: bench_defs)
  show ?thesis
    using unknown_room_is_not_found [OF bench_rooms(1) new_handler_fresh(1,2), of test_env
        \<open>web_request ''{"content": "hello", "nickname": "alice"}''\<close>]
      unknown_room_is_not_found [OF bench_rooms(1) new_handler_fresh(1,2), of test_env
        \<open>api_request POST (u ''tok1'') (u ''s3cret'') Map.empty ''{"content": "hello"}''\<close>]
      unknown_room_is_not_found [OF bench_rooms(2) new_handler_fresh(1,2), of test_env
        \<open>web_request ''{"content": "hello", "nickname": "alice"}''\<close>]
      bench_rooms(1,2) bench_gate body
    by (simp add: new_handler_fresh)
qed

section \<open>Empty content\<close>

text \<open>
  On the web path a post that reaches the content check with falsy content (a missing key,
  \<open>null\<close>, the empty string) is answered 400 and nothing is handed to the bus.
\<close>

lemma web_post_empty_content_rejected:
  assumes "gate_open cfg req"
    and "\<not> room_not_found cfg room" and "\<not> web_post_disabled cfg room"
    and "json_loads e (req_body req) = Some (JObj d)"
    and "\<not> truthy (dict_get d (u ''content'') JNull)"
    and "raised s = None" and "sent s = None"
  shows "sent (PostMessageHandler_post e cfg req room s) =
           Some (400, written s @ [Json (msg_kw ''msg'' ''Cannot send empty message'')])
       \<and> bus (PostMessageHandler_post e cfg req room s) = bus s"
proof -
  have "PostMessageHandler_post_body e cfg req room s =
      finish (write_json 400 (msg_kw ''msg'' ''Cannot send empty message'')
        (s\<lparr>json_data := Some (JObj d)\<rparr>))"
    using assms by (simp add: PostMessageHandler_post_body_def)
  then show ?thesis
    using assms by (simp add: post_gate_open finish_json_fresh)
qed

text \<open>
  On the API path the same check writes and finishes the 400 response and then falls
  through: the message is built and handed to the bus, and the second \<open>write_json\<close> raises
  on the finished request.
\<close>

lemma api_post_empty_content_falls_through:
  assumes "\<not> room_not_found cfg room" and "presents_valid_token e req"
    and "json_data s = Some (JObj d)"
    and "\<not> truthy (dict_get d (u ''content'') JNull)"
    and "raised s = None" and "sent s = None"
  shows "sent (APIPostMessageHandler_post e cfg req room s) =
           Some (400, written s @ [Json (msg_kw ''message'' ''Cannot send empty message'')])
       \<and> bus (APIPostMessageHandler_post e cfg req room s) = bus s @
           [Called \<lparr>msg_channel = ChannelAPI (mgr_get_name e (request_token_id e req)),
              msg_sender = dict_get d (u ''sender'') (JStr (mgr_get_name e (request_token_id e req))),
              msg_receiver = room, msg_content = dict_get d (u ''content'') JNull,
              msg_mtype = (if is_cmd e (dict_get d (u ''content'') JNull) then Command else Text),
              msg_date = now_date e, msg_time = now_time e, msg_room = room\<rparr>]
       \<and> raised (APIPostMessageHandler_post e cfg req room s) = Some RuntimeError"
  using assms
  by (simp add: APIPostMessageHandler_post_def auth_valid Let_def prim_defs)

text \<open>
  Claim C2 holds for the web post and fails for the API post.  An API post to the bound,
  public room \<open>general\<close>, with the valid token \<open>tok1\<close> and the body \<open>{"content": ""}\<close>, is
  answered 400 \<open>Cannot send empty message\<close>; the handler then goes on, hands the message with
  the empty content to the bus, and ends in the \<open>RuntimeError\<close> of a write after \<open>finish\<close>.
\<close>

theorem api_post_empty_content_is_handed_to_bus:
  \<open>APIPostMessageHandler_execute test_env test_config
       (api_request POST (u ''tok1'') (u ''s3cret'') Map.empty ''{"content": ""}'')
       (u ''general'') new_handler =
     \<lparr>status = 200,
      written = [Json (msg_kw ''message'' ''Cannot send empty message'')],
      sent = Some (400, [Json (msg_kw ''message'' ''Cannot send empty message'')]),
      raised = Some RuntimeError,
      json_data = Some (JObj [(u ''content'', JStr [])]),
      bus = [Called \<lparr>msg_channel = ChannelAPI (u ''app''), msg_sender = JStr (u ''app''),
               msg_receiver = u ''general'', msg_content = JStr [], msg_mtype = Text,
               msg_date = u ''2016-05-01'', msg_time = u ''12:00:00'',
               msg_room = u ''general''\<rparr>]\<rparr>\<close>
  by (simp add: handler_defs prim_defs bench_defs Let_def)

section \<open>The sender of a web post\<close>

text \<open>
  Claim C3, as the code has it.  A web post that reaches the sender check (login gate open,
  room bound and public, web posting not disabled, a JSON object with truthy content and a
  string nickname) is answered 400 when the nickname is blank after stripping, and 400 when
  it does not start with a word character; otherwise it is answered 200 and the message,
  with the stripped nickname as sender, is published.  A word character is an alphanumeric
  character or the underscore, so a digit is one: \<open>#bot\<close> is refused, \<open>3\<close> and \<open>bot1\<close> are
  accepted.
\<close>

theorem web_post_sender_check:
  assumes "gate_open cfg req"
    and "\<not> room_not_found cfg room" and "\<not> web_post_disabled cfg room"
    and "json_loads e (req_body req) = Some (JObj d)"
    and "truthy (dict_get d (u ''content'') JNull)"
    and "dict_get d (u ''nickname'') (JStr []) = JStr nickname"
    and "raised s = None" and "sent s = None"
  shows "(strip e nickname = [] \<longrightarrow>
            sent (PostMessageHandler_post e cfg req room s) =
              Some (400, written s @ [Json (msg_kw ''msg'' ''Nickname must be set'')])
          \<and> bus (PostMessageHandler_post e cfg req room s) = bus s)
       \<and> (strip e nickname \<noteq> [] \<and> \<not> re_match_word e (strip e nickname) \<longrightarrow>
            sent (PostMessageHandler_post e cfg req room s) =
              Some (400, written s @
                [Json (msg_kw ''msg'' ''Invalid char found, use a human's nickname instead!'')])
          \<and> bus (PostMessageHandler_post e cfg req room s) = bus s)
       \<and> (strip e nickname \<noteq> [] \<and> re_match_word e (strip e nickname) \<longrightarrow>
            sent (PostMessageHandler_post e cfg req room s) =
              Some (200, written s @ [Json (msg_kw ''msg'' ''OK'')])
          \<and> bus (PostMessageHandler_post e cfg req room s) = bus s @
              [Published \<lparr>msg_channel = ChannelWeb, msg_sender = JStr (strip e nickname),
                 msg_receiver = room, msg_content = dict_get d (u ''content'') JNull,
                 msg_mtype =
                   (if is_cmd e (dict_get d (u ''content'') JNull) then Command else Text),
                 msg_date = now_date e, msg_time = now_time e, msg_room = room\<rparr>])
       \<and> (re_match_word e (strip e nickname) \<longleftrightarrow>
            (\<exists>c cs. strip e nickname = c # cs \<and> (py_isalnum e c \<or> c = 95)))
       \<and> \<not> re_match_word e (strip e (u ''#bot''))
       \<and> re_match_word e (strip e (u ''3''))
       \<and> re_match_word e (strip e (u ''bot1''))"
proof -
  let ?s1 = "s\<lparr>json_data := Some (JObj d)\<rparr>"
  let ?content = "dict_get d (u ''content'') JNull"
  have fresh: "raised ?s1 = None" "sent ?s1 = None" using assms by simp_all
  have post: "PostMessageHandler_post e cfg req room s =
      PostMessageHandler_post_body e cfg req room s"
    using assms(1) by (rule post_gate_open)
  have blank: "PostMessageHandler_post_body e cfg req room s =
      finish (write_json 400 (msg_kw ''msg'' ''Nickname must be set'') ?s1)"
    if "strip e nickname = []"
    using assms that by (simp add: PostMessageHandler_post_body_def)
  have invalid: "PostMessageHandler_post_body e cfg req room s =
      finish (write_json 400
        (msg_kw ''msg'' ''Invalid char found, use a human's nickname instead!'') ?s1)"
    if "strip e nickname \<noteq> []" and "\<not> re_match_word e (strip e nickname)"
    using assms that by (simp add: PostMessageHandler_post_body_def)
  have accepted: "sent (PostMessageHandler_post_body e cfg req room s) =
        Some (200, written s @ [Json (msg_kw ''msg'' ''OK'')])
      \<and> bus (PostMessageHandler_post_body e cfg req room s) = bus s @
          [Published \<lparr>msg_channel = ChannelWeb, msg_sender = JStr (strip e nickname),
             msg_receiver = room, msg_content = ?content,
             msg_mtype = (if is_cmd e ?content then Command else Text),
             msg_date = now_date e, msg_time = now_time e, msg_room = room\<rparr>]"
    if "strip e nickname \<noteq> []" and "re_match_word e (strip e nickname)"
    using assms that by (simp add: PostMessageHandler_post_body_def Let_def prim_defs)
  have word: "re_match_word e (strip e nickname) \<longleftrightarrow>
      (\<exists>c cs. strip e nickname = c # cs \<and> (py_isalnum e c \<or> c = 95))"
    by (cases "strip e nickname") (simp_all add: re_match_word_def word_char_def)
  show ?thesis
    using post blank invalid accepted word fresh
    by (simp add: finish_json_fresh word_char_examples strip_examples)
qed

theorem sender_check_witness:
  \<open>sent (PostMessageHandler_post test_env test_config
       (web_request ''{"content": "hello", "nickname": "#bot"}'') (u ''general'') new_handler) =
     Some (400, [Json (msg_kw ''msg'' ''Invalid char found, use a human's nickname instead!'')])
   \<and> bus (PostMessageHandler_post test_env test_config
       (web_request ''{"content": "hello", "nickname": "#bot"}'') (u ''general'') new_handler) = []
   \<and> sent (PostMessageHandler_post test_env test_config
       (web_request ''{"content": "hello", "nickname": "bot1"}'') (u ''general'') new_handler) =
     Some (200, [Json (msg_kw ''msg'' ''OK'')])
   \<and> sent (PostMessageHandler_post test_env test_config
       (web_request ''{"content": "hello", "nickname": "  "}'') (u ''general'') new_handler) =
     Some (400, [Json (msg_kw ''msg'' ''Nickname must be set'')])\<close>
proof -
  have enabled: "\<not> web_post_disabled test_config (u ''general'')"
    by (simp add: web_post_disabled_def bench_defs)
  have a: \<open>json_loads test_env
        (req_body (web_request ''{"content": "hello", "nickname": "#bot"}'')) =
      Some (JObj [(u ''content'', JStr (u ''hello'')), (u ''nickname'', JStr (u ''#bot''))])\<close>
    and b: \<open>json_loads test_env
        (req_body (web_request ''{"content": "hello", "nickname": "bot1"}'')) =
      Some (JObj [(u ''content'', JStr (u ''hello'')), (u ''nickname'', JStr (u ''bot1''))])\<close>
    and c: \<open>json_loads test_env
        (req_body (web_request ''{"content": "hello", "nickname": "  "}'')) =
      Some (JObj [(u ''content'', JStr (u ''hello'')), (u ''nickname'', JStr (u ''  ''))])\<close>
    by (simp_all add: bench_defs)
  have content: "truthy (dict_get [(u ''content'', JStr (u ''hello'')), (u ''nickname'', JStr n)]
      (u ''content'') JNull)" for n
    by (simp add: dict_get_def u_def)
  have nick: "dict_get [(u ''content'', JStr (u ''hello'')), (u ''nickname'', JStr n)]
      (u ''nickname'') (JStr []) = JStr n" for n
    by (simp add: dict_get_def u_def)
  have blank: "strip test_env (u ''  '') = []"
    by (simp add: strip_def py_isspace_def u_def)
  have ne: "u ''#bot'' \<noteq> []" "u ''bot1'' \<noteq> []"
    by (simp_all add: u_def)
  note check = web_post_sender_check [OF bench_gate bench_rooms(3) enabled _ content nick
      new_handler_fresh(1,2)]
  from check [OF a] have \<open>sent (PostMessageHandler_post test_env test_config
       (web_request ''{"content": "hello", "nickname": "#bot"}'') (u ''general'') new_handler) =
     Some (400, [Json (msg_kw ''msg'' ''Invalid char found, use a human's nickname instead!'')])
   \<and> bus (PostMessageHandler_post test_env test_config
       (web_request ''{"content": "hello", "nickname": "#bot"}'') (u ''general'') new_handler) = []\<close>
    by (simp add: strip_examples word_char_examples ne new_handler_fresh)
  moreover from check [OF b] have \<open>sent (PostMessageHandler_post test_env test_config
       (web_request ''{"content": "hello", "nickname": "bot1"}'') (u ''general'') new_handler) =
     Some (200, [Json (msg_kw ''msg'' ''OK'')])\<close>
    by (simp add: strip_examples word_char_examples ne new_handler_fresh)
  moreover from check [OF c] have \<open>sent (PostMessageHandler_post test_env test_config
       (web_request ''{"content": "hello", "nickname": "  "}'') (u ''general'') new_handler) =
     Some (400, [Json (msg_kw ''msg'' ''Nickname must be set'')])\<close>
    by (simp add: blank new_handler_fresh)
  ultimately show ?thesis by simp
qed

text \<open>
  The claim as the spec words it also promises that the sender \<open>3\<close> is refused.  It is not:
  the post is answered 200 and the message is published with sender \<open>3\<close>.
\<close>

theorem digit_sender_is_accepted:
  \<open>sent (PostMessageHandler_post test_env test_config
       (web_request ''{"content": "hello", "nickname": "3"}'') (u ''general'') new_handler) =
     Some (200, [Json (msg_kw ''msg'' ''OK'')])
   \<and> bus (PostMessageHandler_post test_env test_config
       (web_request ''{"content": "hello", "nickname": "3"}'') (u ''general'') new_handler) =
     [Published \<lparr>msg_channel = ChannelWeb, msg_sender = JStr (u ''3''),
        msg_receiver = u ''general'', msg_content = JStr (u ''hello''), msg_mtype = Text,
        msg_date = u ''2016-05-01'', msg_time = u ''12:00:00'', msg_room = u ''general''\<rparr>]\<close>
  by (simp add: handler_defs prim_defs bench_defs Let_def)

section \<open>The durable queue\<close>

text \<open>
  Claim C4.  For a token whose queue has seen no activity the drain returns no message and
  leaves the store as it is.  After one \<open>Enqueue\<close> of an entry the next drain returns exactly
  that entry, parsed, and removes it: the store is again the one without the queue, and a
  second drain returns no message.  In general a drain that follows any drain of the same
  queue, with nothing enqueued in between, returns no message.  A drain of an empty queue
  is the blocking pop that times out, \<open>ret = Map.empty\<close>.
\<close>

theorem drain_delivers_at_most_once:
  assumes "st (queue_key e token_id) = None" and "json_loads e m = Some v"
  shows "fetch e st (queue_key e token_id) Map.empty = (Inr [], st)
       \<and> fetch e (Enqueue st (queue_key e token_id) m) (queue_key e token_id) ret =
           (Inr [v], st)
       \<and> fetch e (snd (fetch e (Enqueue st (queue_key e token_id) m) (queue_key e token_id) ret))
           (queue_key e token_id) Map.empty = (Inr [], st)
       \<and> fetch e (snd (fetch e st' (queue_key e token_id) ret')) (queue_key e token_id)
           Map.empty = (Inr [], snd (fetch e st' (queue_key e token_id) ret'))"
proof -
  let ?q = "queue_key e token_id"
  have idle: "list_at st ?q = []" using assms(1) by (simp add: list_at_def)
  have first: "fetch e (Enqueue st ?q m) ?q ret = (Inr [v], st)"
    using assms idle by (simp add: fetch_pending list_at_Enqueue delete_Enqueue_fresh)
  show ?thesis using idle first by (simp add: fetch_idle fetch_leaves_nothing)
qed

theorem drain_witness:
  \<open>fetch test_env Map.empty (u ''queue:tok1'') Map.empty = (Inr [], Map.empty)
   \<and> fetch test_env
        (Enqueue Map.empty (u ''queue:tok1'') ''{"room": "general", "content": "hello"}'')
        (u ''queue:tok1'') Map.empty =
      (Inr [JObj [(u ''room'', JStr (u ''general'')), (u ''content'', JStr (u ''hello''))]],
       Map.empty)
   \<and> fetch test_env
        (snd (fetch test_env
           (Enqueue Map.empty (u ''queue:tok1'') ''{"room": "general", "content": "hello"}'')
           (u ''queue:tok1'') Map.empty))
        (u ''queue:tok1'') Map.empty = (Inr [], Map.empty)\<close>
proof -
  have parsed: \<open>json_loads test_env ''{"room": "general", "content": "hello"}'' =
      Some (JObj [(u ''room'', JStr (u ''general'')), (u ''content'', JStr (u ''hello''))])\<close>
    by (simp add: bench_defs)
  show ?thesis
    using drain_delivers_at_most_once [where e = test_env and st = Map.empty
        and token_id = "u ''tok1''" and ret = Map.empty, OF _ parsed]
    by (simp add: bench_queue)
qed



section \<open>Tokens\<close>




section \<open>The room of a long poll\<close>

text \<open>
  What the handler does with the room argument.  The argument is read with the default
  \<open>None\<close>, and the filter is written for an optional room (\<open>if room:\<close>); the room check
  between the two meets \<open>None\<close> as it meets every value that is not a key of the bindings.
\<close>

lemma long_poll_room_cases:
  assumes "presents_valid_token e req" and "raised s = None" and "sent s = None"
  shows "(get_argument e req (u ''room'') None = None \<longrightarrow>
            APILongPollingHandler_get e cfg req ret st s =
              (s\<lparr>status := 404, written := written s @ [Plain (u ''Room not found'')],
                 sent := Some (404, written s @ [Plain (u ''Room not found'')])\<rparr>, st))
       \<and> (get_argument e req (u ''room'') None = Some r \<and> \<not> room_not_found cfg r \<and> r \<noteq> [] \<and>
          list_at st (queue_key e (request_token_id e req)) \<noteq> [] \<and>
          loads_all e (list_at st (queue_key e (request_token_id e req))) = Inr ms \<and>
          filter_room r ms = Inr ms' \<longrightarrow>
            APILongPollingHandler_get e cfg req ret st s =
              (s\<lparr>status := 200, written := written s @ [Json [(u ''messages'', JArr ms')]],
                 sent := messages_response s ms'\<rparr>,
               delete st (queue_key e (request_token_id e req))))"
  using get_no_room[OF assms(1) _ assms(2,3)] get_room_pending[OF assms(1) _ _ _ assms(2,3)]
  by blast

text \<open>
  Claim C8 fails on the code.  A long poll with the valid token \<open>tok1\<close> and no room argument,
  with two entries pending in the queue of the token, is answered 404 \<open>Room not found\<close>; the
  queue is not read and both entries stay.  The claim has the request drain the queue and
  return the pending messages.
\<close>

theorem long_poll_without_room_is_not_found:
  \<open>sent (fst (APILongPollingHandler_get test_env test_config
       (api_request GET (u ''tok1'') (u ''s3cret'') Map.empty []) Map.empty test_store
       new_handler)) =
     Some (404, [Plain (u ''Room not found'')])
   \<and> list_at (snd (APILongPollingHandler_get test_env test_config
       (api_request GET (u ''tok1'') (u ''s3cret'') Map.empty []) Map.empty test_store
       new_handler))
       (u ''queue:tok1'') =
     [''{"room": "general", "content": "hello"}'', ''{"room": "dev", "content": "patch"}'']\<close>
  by (simp add: poll_defs prim_defs bench_defs)

section \<open>Web posting\<close>

text \<open>
  Claim C9.  A binding that does not set \<open>web_post\<close> permits web posting.  The 403 answer
  \<open>Web post is disabled.\<close> is given exactly when the request passes the login gate, the room
  is bound and public, and its binding sets \<open>web_post\<close> to false.
\<close>

theorem web_post_enabled_by_default:
  assumes "raised s = None" and "sent s = None"
  shows "(bindings cfg room = Some b \<and> web_post b = None \<longrightarrow>
            \<not> web_post_disabled cfg room
          \<and> sent (PostMessageHandler_post e cfg req room s) \<noteq> posting_disabled_response s)
       \<and> (sent (PostMessageHandler_post e cfg req room s) = posting_disabled_response s
           \<longleftrightarrow> gate_open cfg req \<and> \<not> room_not_found cfg room
               \<and> (\<exists>b. bindings cfg room = Some b \<and> web_post b = Some False))"
proof -
  have flag: "web_post_disabled cfg room \<longleftrightarrow>
      (\<exists>b. bindings cfg room = Some b \<and> web_post b = Some False)"
    by (auto simp: web_post_disabled_def split: option.splits)
  have body: "sent (PostMessageHandler_post_body e cfg req room s) = posting_disabled_response s
      \<longleftrightarrow> \<not> room_not_found cfg room \<and> web_post_disabled cfg room"
    using assms
    by (auto simp: PostMessageHandler_post_body_def posting_disabled_response_def Let_def
        prim_defs split: option.splits json.splits)
  have closed: "sent (PostMessageHandler_post e cfg req room s) \<noteq> posting_disabled_response s"
    if "\<not> gate_open cfg req"
    using assms that
    by (auto simp: gate_open_def PostMessageHandler_post_def authenticated_def redirect_def
        posting_disabled_response_def prim_defs)
  have iff: "sent (PostMessageHandler_post e cfg req room s) = posting_disabled_response s
      \<longleftrightarrow> gate_open cfg req \<and> \<not> room_not_found cfg room
          \<and> (\<exists>b. bindings cfg room = Some b \<and> web_post b = Some False)"
  proof (cases "gate_open cfg req")
    case True
    then show ?thesis using flag body by (simp add: post_gate_open)
  next
    case False
    then show ?thesis using closed by simp
  qed
  show ?thesis using flag iff by auto
qed

theorem web_post_default_witness:
  \<open>bindings test_config (u ''general'') = Some \<lparr>web_post = None\<rparr>
   \<and> \<not> web_post_disabled test_config (u ''general'')
   \<and> sent (PostMessageHandler_post test_env test_config
        (web_request ''{"content": "hello", "nickname": "alice"}'') (u ''general'') new_handler)
      \<noteq> posting_disabled_response new_handler
   \<and> sent (PostMessageHandler_post test_env test_config
        (web_request ''{"content": "hello", "nickname": "alice"}'') (u ''readonly'') new_handler)
      = posting_disabled_response new_handler\<close>
proof -
  have g: "bindings test_config (u ''general'') = Some \<lparr>web_post = None\<rparr>"
    and r: "bindings test_config (u ''readonly'') = Some \<lparr>web_post = Some False\<rparr>"
    by (simp_all add: bench_defs)
  show ?thesis
    using web_post_enabled_by_default [OF new_handler_fresh(1,2), of test_config "u ''general''"
        "\<lparr>web_post = None\<rparr>" test_env
        \<open>web_request ''{"content": "hello", "nickname": "alice"}''\<close>]
      web_post_enabled_by_default [OF new_handler_fresh(1,2), of test_config "u ''readonly''"
        "\<lparr>web_post = Some False\<rparr>" test_env
        \<open>web_request ''{"content": "hello", "nickname": "alice"}''\<close>]
      g r bench_gate bench_rooms
    by simp
qed

section \<open>The body of an API post\<close>

text \<open>
  Claim C10.  \<open>prepare\<close> answers an API post with an empty body with 400
  \<open>Cannot handle empty request\<close>, and one whose body is not empty and does not parse with 400
  \<open>Unable to parse JSON.\<close>; the request ends there, \<open>post\<close> is not run.  The resulting
  handler does not depend on the configuration, the room or the token: neither the room
  check nor \<open>auth\<close> has run.
\<close>

theorem api_prepare_rejects_bad_body:
  assumes "raised s = None" and "sent s = None"
  shows "(req_body req = [] \<longrightarrow>
            APIPostMessageHandler_prepare e req s =
              s\<lparr>status := 400,
                written := written s @ [Json (msg_kw ''message'' ''Cannot handle empty request'')],
                sent := Some (400, written s @
                  [Json (msg_kw ''message'' ''Cannot handle empty request'')])\<rparr>
          \<and> APIPostMessageHandler_execute e cfg req room s = APIPostMessageHandler_prepare e req s)
       \<and> (req_body req \<noteq> [] \<and> json_loads e (req_body req) = None \<longrightarrow>
            APIPostMessageHandler_prepare e req s =
              s\<lparr>status := 400,
                written := written s @ [Json (msg_kw ''message'' ''Unable to parse JSON.'')],
                sent := Some (400, written s @
                  [Json (msg_kw ''message'' ''Unable to parse JSON.'')])\<rparr>
          \<and> APIPostMessageHandler_execute e cfg req room s = APIPostMessageHandler_prepare e req s)"
  using assms
  by (simp add: APIPostMessageHandler_prepare_def APIPostMessageHandler_execute_def
      finish_json_fresh finished_def)

theorem api_prepare_witness:
  \<open>sent (APIPostMessageHandler_execute test_env test_config
        (api_request POST (u ''tok1'') (u ''guess'') Map.empty []) (u ''nowhere'') new_handler) =
      Some (400, [Json (msg_kw ''message'' ''Cannot handle empty request'')])
   \<and> sent (APIPostMessageHandler_execute test_env test_config
        (api_request POST (u ''tok1'') (u ''guess'') Map.empty ''content=hello'') (u ''nowhere'')
        new_handler) =
      Some (400, [Json (msg_kw ''message'' ''Unable to parse JSON.'')])\<close>
proof -
  have a: "req_body (api_request POST (u ''tok1'') (u ''guess'') Map.empty []) = []"
    by (simp add: api_request_def)
  have b: "req_body (api_request POST (u ''tok1'') (u ''guess'') Map.empty ''content=hello'') \<noteq> []
      \<and> json_loads test_env
          (req_body (api_request POST (u ''tok1'') (u ''guess'') Map.empty ''content=hello''))
          = None"
    by (simp add: bench_defs)
  show ?thesis
    using api_prepare_rejects_bad_body [OF new_handler_fresh(1,2), of
        "api_request POST (u ''tok1'') (u ''guess'') Map.empty []" test_env test_config
        "u ''nowhere''"]
      api_prepare_rejects_bad_body [OF new_handler_fresh(1,2), of
        "api_request POST (u ''tok1'') (u ''guess'') Map.empty ''content=hello''" test_env
        test_config "u ''nowhere''"]
      a b
    by (simp add: new_handler_fresh)
qed

end
